theory Spec2Isabelle
  imports Main "HOL-Library.Word"
begin

section \<open>JavaScript values\<close>

text \<open>
  A JavaScript string is a sequence of 16-bit code units. The texts that come back from
  the remote service and the values \<open>JSON.parse\<close> builds from them are kept in that form;
  the fixed ASCII texts of the program (messages, media types, model names) are plain
  \<open>string\<close>s and \<open>js\<close> turns one into code units.
\<close>

type_synonym jschar = "16 word"
type_synonym jsstring = "jschar list"

definition js :: "string \<Rightarrow> jsstring" where
  "js s = map (\<lambda>c. of_nat (of_char c)) s"

text \<open>
  The values a variable typed \<open>Transcription | null\<close> can hold at run time: the cast
  \<open>as Transcription\<close> in the service checks nothing, so whatever \<open>JSON.parse\<close> returns
  gets stored. A number is kept as the decimal its text denotes: sign, digits and power
  of ten (sign and digits apart, since \<open>-0\<close> is a value of its own).
\<close>

datatype jsval =
    JUndefined
  | JNull
  | JBool bool
  | JNum bool nat int
  | JStr jsstring
  | JArr "jsval list"
  | JObj "(jsstring \<times> jsval) list"

text \<open>
  The double nearest to \<open>m * 10 ^ e\<close> is zero when \<open>m\<close> is zero or the decimal is at most
  half the least positive double, \<open>2 ^ -1075\<close>.
\<close>

definition rounds_to_zero :: "nat \<Rightarrow> int \<Rightarrow> bool" where
  "rounds_to_zero m e \<longleftrightarrow> m = 0 \<or> (e < 0 \<and> int m * 2 ^ 1075 \<le> 10 ^ nat (- e))"

text \<open>What \<open>if (v)\<close>, \<open>!v\<close>, \<open>v && x\<close> and \<open>v || x\<close> test.\<close>

fun truthy :: "jsval \<Rightarrow> bool" where
  "truthy JUndefined = False"
| "truthy JNull = False"
| "truthy (JBool b) = b"
| "truthy (JNum _ m e) = (\<not> rounds_to_zero m e)"
| "truthy (JStr s) = (s \<noteq> [])"
| "truthy (JArr _) = True"
| "truthy (JObj _) = True"

datatype js_error =
    Error string
  | TypeError
  | SyntaxError
  | InvalidStateError
  | Rejection

text \<open>
  \<open>v.content\<close>: a \<open>TypeError\<close> on \<open>null\<close> and \<open>undefined\<close>; on an object built by
  \<open>JSON.parse\<close> the value of the last member of that name; \<open>undefined\<close> where there is
  none, and on strings, numbers, booleans and arrays, whose prototypes have no such
  property.
\<close>

definition member :: "jsstring \<Rightarrow> (jsstring \<times> jsval) list \<Rightarrow> jsval" where
  "member k ms = (case map_of (rev ms) k of None \<Rightarrow> JUndefined | Some v \<Rightarrow> v)"

fun get_content :: "jsval \<Rightarrow> js_error + jsval" where
  "get_content JUndefined = Inl TypeError"
| "get_content JNull = Inl TypeError"
| "get_content (JObj ms) = Inr (member (js ''content'') ms)"
| "get_content _ = Inr JUndefined"

subsection \<open>String.prototype.trim\<close>

text \<open>
  \<open>trim\<close> removes white space and line terminators from both ends: TAB, LF, VT, FF, CR,
  SPACE, NBSP, the other space separators of Unicode, the line and paragraph
  separators and the byte order mark.
\<close>

definition is_trimmed :: "jschar \<Rightarrow> bool" where
  "is_trimmed c \<longleftrightarrow>
     (0x9 \<le> c \<and> c \<le> 0xD) \<or> c = 0x20 \<or> c = 0xA0 \<or> c = 0x1680 \<or>
     (0x2000 \<le> c \<and> c \<le> 0x200A) \<or> c = 0x2028 \<or> c = 0x2029 \<or> c = 0x202F \<or>
     c = 0x205F \<or> c = 0x3000 \<or> c = 0xFEFF"

definition trim :: "jsstring \<Rightarrow> jsstring" where
  "trim s = rev (dropWhile is_trimmed (rev (dropWhile is_trimmed s)))"

subsection \<open>JSON.parse\<close>

text \<open>
  \<open>JSON.parse\<close> (called without a reviver) reads the text one code unit at a time. The
  reader below keeps what a hand-written one keeps: the token being read, what the
  grammar allows next, and the arrays and objects that are still open.
\<close>

datatype frame =
    InArr "jsval list"
  | InObj "(jsstring \<times> jsval) list" "jsstring option"

datatype expect =
    Value
  | ValueOrEnd
  | KeyOrEnd
  | Key
  | Colon
  | CommaOrEnd
  | Done jsval

datatype number_part = NSign | NZero | NInt | NPoint | NFrac | NExpMark | NExpSign | NExp

text \<open>
  A number being read: its part, sign, digits so far, how many of them came after the
  point, the sign of the exponent and the exponent's digits.
\<close>

datatype token =
    Between
  | InString jsstring
  | Escape jsstring
  | Hex jsstring nat nat
  | InNumber number_part bool nat nat bool nat
  | InWord jsstring jsval

type_synonym reader = "token \<times> expect \<times> frame list"

definition is_json_space :: "jschar \<Rightarrow> bool" where
  "is_json_space c \<longleftrightarrow> c = 0x20 \<or> c = 0x9 \<or> c = 0xA \<or> c = 0xD"

definition is_digit :: "jschar \<Rightarrow> bool" where
  "is_digit c \<longleftrightarrow> 0x30 \<le> c \<and> c \<le> 0x39"

definition digit_value :: "jschar \<Rightarrow> nat" where
  "digit_value c = unat c - 0x30"

definition hex_value :: "jschar \<Rightarrow> nat option" where
  "hex_value c =
     (if 0x30 \<le> c \<and> c \<le> 0x39 then Some (unat c - 0x30)
      else if 0x41 \<le> c \<and> c \<le> 0x46 then Some (unat c - 0x37)
      else if 0x61 \<le> c \<and> c \<le> 0x66 then Some (unat c - 0x57)
      else None)"

text \<open>A value is complete: it goes to the innermost open array or object, or is the result.\<close>

fun deliver :: "jsval \<Rightarrow> frame list \<Rightarrow> reader option" where
  "deliver v [] = Some (Between, Done v, [])"
| "deliver v (InArr vs # fs) = Some (Between, CommaOrEnd, InArr (v # vs) # fs)"
| "deliver v (InObj ms (Some k) # fs) = Some (Between, CommaOrEnd, InObj ((k, v) # ms) None # fs)"
| "deliver v (InObj ms None # fs) = None"

definition wants_value :: "expect \<Rightarrow> bool" where
  "wants_value x \<longleftrightarrow> x = Value \<or> x = ValueOrEnd"

definition wants_key :: "expect \<Rightarrow> bool" where
  "wants_key x \<longleftrightarrow> x = Key \<or> x = KeyOrEnd"

text \<open>A closing quote: the string is a member name or a value, by what was expected.\<close>

definition end_string :: "jsstring \<Rightarrow> expect \<Rightarrow> frame list \<Rightarrow> reader option" where
  "end_string s x fs =
     (if wants_key x then
        (case fs of
           InObj ms None # fs' \<Rightarrow> Some (Between, Colon, InObj ms (Some s) # fs')
         | _ \<Rightarrow> None)
      else deliver (JStr s) fs)"

definition end_number :: "bool \<Rightarrow> nat \<Rightarrow> nat \<Rightarrow> bool \<Rightarrow> nat \<Rightarrow> jsval" where
  "end_number neg m scale eneg ex =
     JNum neg m ((if eneg then - int ex else int ex) - int scale)"

definition number_complete :: "number_part \<Rightarrow> bool" where
  "number_complete p \<longleftrightarrow> p = NZero \<or> p = NInt \<or> p = NFrac \<or> p = NExp"

text \<open>A code unit outside any token.\<close>

definition between :: "jschar \<Rightarrow> expect \<Rightarrow> frame list \<Rightarrow> reader option" where
  "between c x fs =
     (if is_json_space c then Some (Between, x, fs)
      else if c = 0x5B then
        (if wants_value x then Some (Between, ValueOrEnd, InArr [] # fs) else None)
      else if c = 0x7B then
        (if wants_value x then Some (Between, KeyOrEnd, InObj [] None # fs) else None)
      else if c = 0x5D then
        (case fs of
           InArr vs # fs' \<Rightarrow>
             if x = ValueOrEnd \<or> x = CommaOrEnd then deliver (JArr (rev vs)) fs' else None
         | _ \<Rightarrow> None)
      else if c = 0x7D then
        (case fs of
           InObj ms None # fs' \<Rightarrow>
             if x = KeyOrEnd \<or> x = CommaOrEnd then deliver (JObj (rev ms)) fs' else None
         | _ \<Rightarrow> None)
      else if c = 0x2C then
        (if x = CommaOrEnd then
           (case fs of
              InArr vs # fs' \<Rightarrow> Some (Between, Value, fs)
            | InObj ms None # fs' \<Rightarrow> Some (Between, Key, fs)
            | _ \<Rightarrow> None)
         else None)
      else if c = 0x3A then
        (if x = Colon then Some (Between, Value, fs) else None)
      else if c = 0x22 then
        (if wants_value x \<or> wants_key x then Some (InString [], x, fs) else None)
      else if \<not> wants_value x then None
      else if c = 0x2D then Some (InNumber NSign True 0 0 False 0, x, fs)
      else if c = 0x30 then Some (InNumber NZero False 0 0 False 0, x, fs)
      else if is_digit c then Some (InNumber NInt False (digit_value c) 0 False 0, x, fs)
      else if c = 0x74 then Some (InWord (js ''rue'') (JBool True), x, fs)
      else if c = 0x66 then Some (InWord (js ''alse'') (JBool False), x, fs)
      else if c = 0x6E then Some (InWord (js ''ull'') JNull, x, fs)
      else None)"

text \<open>
  A code unit inside a number: the next part of the number if the grammar has one for
  it, \<open>None\<close> otherwise (the number ends before this code unit, or is malformed).
\<close>

definition in_number ::
  "jschar \<Rightarrow> number_part \<Rightarrow> bool \<Rightarrow> nat \<Rightarrow> nat \<Rightarrow> bool \<Rightarrow> nat \<Rightarrow> token option" where
  "in_number c p neg m scale eneg ex =
     (let d = digit_value c in
      if p = NSign then
        (if c = 0x30 then Some (InNumber NZero neg 0 0 False 0)
         else if is_digit c then Some (InNumber NInt neg d 0 False 0)
         else None)
      else if p = NZero then
        (if c = 0x2E then Some (InNumber NPoint neg m scale eneg ex)
         else if c = 0x65 \<or> c = 0x45 then Some (InNumber NExpMark neg m scale eneg ex)
         else None)
      else if p = NInt then
        (if is_digit c then Some (InNumber NInt neg (10 * m + d) scale eneg ex)
         else if c = 0x2E then Some (InNumber NPoint neg m scale eneg ex)
         else if c = 0x65 \<or> c = 0x45 then Some (InNumber NExpMark neg m scale eneg ex)
         else None)
      else if p = NPoint then
        (if is_digit c then Some (InNumber NFrac neg (10 * m + d) (Suc scale) eneg ex)
         else None)
      else if p = NFrac then
        (if is_digit c then Some (InNumber NFrac neg (10 * m + d) (Suc scale) eneg ex)
         else if c = 0x65 \<or> c = 0x45 then Some (InNumber NExpMark neg m scale eneg ex)
         else None)
      else if p = NExpMark then
        (if c = 0x2B then Some (InNumber NExpSign neg m scale False ex)
         else if c = 0x2D then Some (InNumber NExpSign neg m scale True ex)
         else if is_digit c then Some (InNumber NExp neg m scale eneg d)
         else None)
      else
        (if is_digit c then Some (InNumber NExp neg m scale eneg (10 * ex + d))
         else None))"

definition unescape :: "jschar \<Rightarrow> jschar option" where
  "unescape c =
     (if c = 0x22 \<or> c = 0x5C \<or> c = 0x2F then Some c
      else if c = 0x62 then Some 0x8
      else if c = 0x66 then Some 0xC
      else if c = 0x6E then Some 0xA
      else if c = 0x72 then Some 0xD
      else if c = 0x74 then Some 0x9
      else None)"

fun read :: "reader \<Rightarrow> jschar \<Rightarrow> reader option" where
  "read (Between, x, fs) c = between c x fs"
| "read (InString s, x, fs) c =
     (if c = 0x22 then end_string (rev s) x fs
      else if c = 0x5C then Some (Escape s, x, fs)
      else if c < 0x20 then None
      else Some (InString (c # s), x, fs))"
| "read (Escape s, x, fs) c =
     (if c = 0x75 then Some (Hex s 0 0, x, fs)
      else (case unescape c of
              None \<Rightarrow> None
            | Some u \<Rightarrow> Some (InString (u # s), x, fs)))"
| "read (Hex s n h, x, fs) c =
     (case hex_value c of
        None \<Rightarrow> None
      | Some d \<Rightarrow>
          if n = 3 then Some (InString (of_nat (16 * h + d) # s), x, fs)
          else Some (Hex s (Suc n) (16 * h + d), x, fs))"
| "read (InNumber p neg m scale eneg ex, x, fs) c =
     (case in_number c p neg m scale eneg ex of
        Some t \<Rightarrow> Some (t, x, fs)
      | None \<Rightarrow>
          if number_complete p then
            (case deliver (end_number neg m scale eneg ex) fs of
               None \<Rightarrow> None
             | Some (t, x', fs') \<Rightarrow> between c x' fs')
          else None)"
| "read (InWord w v, x, fs) c =
     (case w of
        [] \<Rightarrow> None
      | a # w' \<Rightarrow>
          if c \<noteq> a then None
          else if w' = [] then deliver v fs
          else Some (InWord w' v, x, fs))"

fun read_all :: "reader \<Rightarrow> jsstring \<Rightarrow> reader option" where
  "read_all r [] = Some r"
| "read_all r (c # cs) = (case read r c of None \<Rightarrow> None | Some r' \<Rightarrow> read_all r' cs)"

text \<open>At the end of the text: a whole value has been read, or a number ends the text.\<close>

fun at_end :: "reader \<Rightarrow> jsval option" where
  "at_end (Between, Done v, []) = Some v"
| "at_end (InNumber p neg m scale eneg ex, Value, []) =
     (if number_complete p then Some (end_number neg m scale eneg ex) else None)"
| "at_end _ = None"

text \<open>\<open>JSON.parse text\<close>: the value, or \<open>None\<close> where it throws a \<open>SyntaxError\<close>.\<close>

definition JSON_parse :: "jsstring \<Rightarrow> jsval option" where
  "JSON_parse text =
     (case read_all (Between, Value, []) text of None \<Rightarrow> None | Some r \<Rightarrow> at_end r)"

section \<open>The transcription client (services/geminiService.ts)\<close>

text \<open>
  Loading the module reads \<open>process.env.API_KEY\<close> and throws when it is missing or
  empty (\<open>!process.env.API_KEY\<close>); otherwise it builds the client \<open>ai\<close>. The two
  operations of the module use that client, so they take it as an argument here.
\<close>

record GoogleGenAI =
  apiKey :: string

definition load_geminiService :: "(string \<rightharpoonup> string) \<Rightarrow> js_error + GoogleGenAI" where
  "load_geminiService env =
     (case env ''API_KEY'' of
        None \<Rightarrow> Inl (Error ''API_KEY environment variable not set'')
      | Some k \<Rightarrow>
          if k = [] then Inl (Error ''API_KEY environment variable not set'')
          else Inr \<lparr>apiKey = k\<rparr>)"

datatype ReformatFormat =
    Email | Memo | Blog_Post | Summary | Development_Prompt | AI_Prompt
  | Meeting_Minutes | Social_Media_Post | Press_Release | To_Do_List

datatype ReformatStyle = Business_Appropriate | Formal | Informal

record ReformatOptions =
  format :: ReformatFormat
  style :: ReformatStyle

text \<open>
  A \<open>Blob\<close> is its bytes and its declared media type. \<open>blobToBase64\<close> (utils/blob) is
  kept symbolic: the base64 text of these bytes.
\<close>

record Blob =
  bytes :: "8 word list"
  type :: string

datatype base64 = Base64 "8 word list"

definition blobToBase64 :: "Blob \<Rightarrow> base64" where
  "blobToBase64 b = Base64 (bytes b)"

text \<open>
  What \<open>ai.models.generateContent\<close> is called with: the model and the contents. The
  transcription request carries the audio part (data and media type) next to its fixed
  instruction text; the reformat request is the prompt made of the original text, the
  format and the style. The response configuration is the same constant schema in both.
\<close>

datatype contents =
    AudioPart base64 string
  | ReformatPrompt jsval ReformatFormat ReformatStyle

record generateContent =
  client :: GoogleGenAI
  model :: string
  contents :: contents

text \<open>
  How the awaited call ends: the promise is rejected (no connection, a response that is
  not a success; for a transcription also a blob that cannot be read), or it yields a
  response whose \<open>text\<close> is a string or \<open>undefined\<close>.
\<close>

datatype response = Failed | Text "jsstring option"

definition transcribeAudio_call :: "GoogleGenAI \<Rightarrow> base64 \<Rightarrow> string \<Rightarrow> generateContent" where
  "transcribeAudio_call ai base64Audio mimeType =
     \<lparr>client = ai, model = ''gemini-2.5-flash'', contents = AudioPart base64Audio mimeType\<rparr>"

definition transcribeAudio_return :: "response \<Rightarrow> js_error + jsval" where
  "transcribeAudio_return r =
     (case r of
        Failed \<Rightarrow> Inl Rejection
      | Text None \<Rightarrow> Inl TypeError
      | Text (Some t) \<Rightarrow>
          (let jsonString = trim t in
           case JSON_parse jsonString of
             None \<Rightarrow> Inl SyntaxError
           | Some v \<Rightarrow> Inr v))"

definition reformatText_call ::
  "GoogleGenAI \<Rightarrow> jsval \<Rightarrow> ReformatFormat \<Rightarrow> ReformatStyle \<Rightarrow> generateContent" where
  "reformatText_call ai originalText fmt sty =
     \<lparr>client = ai, model = ''gemini-2.5-pro'', contents = ReformatPrompt originalText fmt sty\<rparr>"

definition reformatText_return :: "response \<Rightarrow> js_error + jsval" where
  "reformatText_return r =
     (case r of
        Failed \<Rightarrow> Inl Rejection
      | Text None \<Rightarrow> Inl TypeError
      | Text (Some t) \<Rightarrow>
          (let jsonString = trim t in
           case JSON_parse jsonString of
             None \<Rightarrow> Inl SyntaxError
           | Some v \<Rightarrow> Inr v))"

section \<open>The orchestrator (the App component)\<close>

record loading =
  transcription :: bool
  reformatting :: bool

text \<open>
  A handler that awaits a remote call runs in two parts: up to the \<open>await\<close>, and from
  the response on. Between the two the call is in flight; a reformat call keeps the
  \<open>isLoading\<close> its handler closed over, which its \<open>finally\<close> block writes back. The
  handler the form calls is the one of the latest render (\<open>useCallback\<close> lists both
  values it reads), so what it closed over is the state at the time of the call.
\<close>

datatype request =
    Transcribe generateContent
  | Reformat generateContent loading

record App =
  isLoading :: loading
  error :: "string option"
  transcriptionResult :: jsval
  reformattedResult :: jsval
  inflight :: "request list"

definition App_init :: App where
  "App_init =
     \<lparr>isLoading = \<lparr>transcription = False, reformatting = False\<rparr>, error = None,
      transcriptionResult = JNull, reformattedResult = JNull, inflight = []\<rparr>"

definition handleSendAudio :: "GoogleGenAI \<Rightarrow> Blob \<Rightarrow> App \<Rightarrow> App" where
  "handleSendAudio ai audioBlob st =
     st\<lparr>isLoading := \<lparr>transcription = True, reformatting = False\<rparr>,
        error := None,
        transcriptionResult := JNull,
        reformattedResult := JNull,
        inflight := inflight st @
          [Transcribe (transcribeAudio_call ai (blobToBase64 audioBlob) (type audioBlob))]\<rparr>"

definition handleSendAudio_settle :: "response \<Rightarrow> App \<Rightarrow> App" where
  "handleSendAudio_settle r st =
     (case transcribeAudio_return r of
        Inr result \<Rightarrow> st\<lparr>transcriptionResult := result\<rparr>
      | Inl err \<Rightarrow> st\<lparr>error := Some ''Failed to transcribe audio. Please try again.''\<rparr>)
     \<lparr>isLoading := \<lparr>transcription = False, reformatting = False\<rparr>\<rparr>"

definition handleReformat :: "GoogleGenAI \<Rightarrow> ReformatOptions \<Rightarrow> App \<Rightarrow> App" where
  "handleReformat ai options st =
     (if \<not> truthy (transcriptionResult st) then st
      else
        let st' = st\<lparr>isLoading := (isLoading st)\<lparr>reformatting := True\<rparr>,
                     error := None,
                     reformattedResult := JNull\<rparr>
        in case get_content (transcriptionResult st) of
             Inl err \<Rightarrow>
               st'\<lparr>error := Some ''Failed to reformat text. Please try again.'',
                   isLoading := (isLoading st)\<lparr>reformatting := False\<rparr>\<rparr>
           | Inr originalText \<Rightarrow>
               st'\<lparr>inflight := inflight st @
                     [Reformat (reformatText_call ai originalText (format options) (style options))
                        (isLoading st)]\<rparr>)"

definition handleReformat_settle :: "loading \<Rightarrow> response \<Rightarrow> App \<Rightarrow> App" where
  "handleReformat_settle closed r st =
     (case reformatText_return r of
        Inr result \<Rightarrow> st\<lparr>reformattedResult := result\<rparr>
      | Inl err \<Rightarrow> st\<lparr>error := Some ''Failed to reformat text. Please try again.''\<rparr>)
     \<lparr>isLoading := closed\<lparr>reformatting := False\<rparr>\<rparr>"

definition handleClear :: "App \<Rightarrow> App" where
  "handleClear st =
     st\<lparr>transcriptionResult := JNull,
        reformattedResult := JNull,
        error := None,
        isLoading := \<lparr>transcription = False, reformatting = False\<rparr>\<rparr>"

text \<open>The response to the \<open>i\<close>-th call in flight arrives; there is none beyond the last.\<close>

definition respond :: "nat \<Rightarrow> response \<Rightarrow> App \<Rightarrow> App" where
  "respond i r st =
     (if i < length (inflight st) then
        let st' = st\<lparr>inflight := take i (inflight st) @ drop (Suc i) (inflight st)\<rparr>
        in case inflight st ! i of
             Transcribe c \<Rightarrow> handleSendAudio_settle r st'
           | Reformat c closed \<Rightarrow> handleReformat_settle closed r st'
      else st)"

fun is_transcribe :: "request \<Rightarrow> bool" where
  "is_transcribe (Transcribe c) = True"
| "is_transcribe (Reformat c l) = False"



section \<open>The recording session (the RecordingPane component)\<close>

text \<open>
  The component's state and refs, and next to them what the browser keeps for it: the
  state of the \<open>MediaRecorder\<close> the ref points to, the events a stopped recorder has yet
  to fire, the intervals that are running, each with the \<open>startTime\<close> its callback
  closed over, and the calls of \<open>handleRecord\<close> that wait for the microphone, each with
  the \<open>elapsedTime\<close> of the render it belongs to. The audio level, the analyser, the
  audio context and the animation frame serve the level display only and are left out,
  and so are the tracks of the microphone stream, which \<open>cleanup\<close> stops.
\<close>

datatype RecordingState = Idle | Recording | Paused | Stopped

datatype MediaRecorder = inactive | recording | paused

datatype recorder_event = Fire_dataavailable | Fire_stop

record RecordingPane =
  recordingState :: RecordingState
  elapsedTime :: int
  audioBlob :: "Blob option"
  mediaRecorderRef :: "MediaRecorder option"
  audioChunksRef :: "Blob list"
  timerIntervalRef :: "nat option"
  intervals :: "(nat \<times> int) list"
  intervalsSet :: nat
  awaiting :: "int list"
  recorderEvents :: "recorder_event list"

definition RecordingPane_init :: RecordingPane where
  "RecordingPane_init =
     \<lparr>recordingState = Idle, elapsedTime = 0, audioBlob = None, mediaRecorderRef = None,
      audioChunksRef = [], timerIntervalRef = None, intervals = [], intervalsSet = 0,
      awaiting = [], recorderEvents = []\<rparr>"

definition clearInterval :: "nat \<Rightarrow> RecordingPane \<Rightarrow> RecordingPane" where
  "clearInterval i p = p\<lparr>intervals := filter (\<lambda>(j, t). j \<noteq> i) (intervals p)\<rparr>"

definition clearTimer :: "RecordingPane \<Rightarrow> RecordingPane" where
  "clearTimer p = (case timerIntervalRef p of None \<Rightarrow> p | Some i \<Rightarrow> clearInterval i p)"

definition cleanup :: "RecordingPane \<Rightarrow> RecordingPane" where
  "cleanup p = (clearTimer p)\<lparr>mediaRecorderRef := None\<rparr>"

text \<open>
  \<open>setupMediaRecorder\<close> from the microphone's answer on: when access is granted the ref
  holds a new recorder, not yet started, and the result is \<open>true\<close>; otherwise the result
  is \<open>false\<close>.
\<close>

definition setupMediaRecorder :: "bool \<Rightarrow> RecordingPane \<Rightarrow> bool \<times> RecordingPane" where
  "setupMediaRecorder granted p =
     (if granted then (True, p\<lparr>mediaRecorderRef := Some inactive\<rparr>) else (False, p))"

text \<open>
  \<open>startTimer\<close> reads the clock (\<open>now\<close>, in milliseconds) and the \<open>elapsedTime\<close> of the
  render its closure belongs to; \<open>setInterval\<close> hands out a fresh positive id, and the
  ref is overwritten with it, whatever it held. The interval's callback is \<open>tick\<close>.
\<close>

definition startTimer :: "int \<Rightarrow> int \<Rightarrow> RecordingPane \<Rightarrow> RecordingPane" where
  "startTimer now elapsed p =
     (let startTime = now - elapsed * 1000; i = Suc (intervalsSet p)
      in p\<lparr>timerIntervalRef := Some i, intervals := intervals p @ [(i, startTime)],
           intervalsSet := i\<rparr>)"

definition tick :: "nat \<Rightarrow> int \<Rightarrow> RecordingPane \<Rightarrow> RecordingPane" where
  "tick i now p =
     (case map_of (intervals p) i of
        None \<Rightarrow> p
      | Some startTime \<Rightarrow> p\<lparr>elapsedTime := (now - startTime) div 1000\<rparr>)"

text \<open>
  The recorder's methods behind \<open>mediaRecorderRef.current?.\<close>: nothing happens on a
  null ref; \<open>start\<close> throws unless the recorder is inactive, \<open>pause\<close> and \<open>resume\<close>
  throw on an inactive one. \<open>stop\<close> on an inactive one does nothing; on any other it
  makes the recorder inactive, and the recorder will then fire \<open>dataavailable\<close> with
  what it has gathered, and \<open>stop\<close>.
\<close>

definition recorder_start :: "MediaRecorder option \<Rightarrow> js_error + MediaRecorder option" where
  "recorder_start r =
     (case r of None \<Rightarrow> Inr None
      | Some m \<Rightarrow> if m = inactive then Inr (Some recording) else Inl InvalidStateError)"

definition recorder_pause :: "MediaRecorder option \<Rightarrow> js_error + MediaRecorder option" where
  "recorder_pause r =
     (case r of None \<Rightarrow> Inr None
      | Some m \<Rightarrow> if m = inactive then Inl InvalidStateError else Inr (Some paused))"

definition recorder_resume :: "MediaRecorder option \<Rightarrow> js_error + MediaRecorder option" where
  "recorder_resume r =
     (case r of None \<Rightarrow> Inr None
      | Some m \<Rightarrow> if m = inactive then Inl InvalidStateError else Inr (Some recording))"

definition recorder_stop :: "RecordingPane \<Rightarrow> RecordingPane" where
  "recorder_stop p =
     (case mediaRecorderRef p of
        None \<Rightarrow> p
      | Some m \<Rightarrow>
          if m = inactive then p
          else p\<lparr>mediaRecorderRef := Some inactive,
                 recorderEvents := recorderEvents p @ [Fire_dataavailable, Fire_stop]\<rparr>)"

text \<open>
  \<open>handleRecord\<close> up to its \<open>await\<close>. On a paused session it resumes at once, reading
  the clock. Otherwise it drops the artifact and the chunks and asks for the
  microphone; until the answer comes the state is as it was, so the Record button stays
  enabled. An exception thrown by the recorder ends a handler where it stands: what was
  set before stays, and nothing after it happens.
\<close>

definition handleRecord :: "int \<Rightarrow> RecordingPane \<Rightarrow> RecordingPane" where
  "handleRecord now p =
     (if recordingState p = Paused then
        (case recorder_resume (mediaRecorderRef p) of
           Inl err \<Rightarrow> p
         | Inr r \<Rightarrow>
             startTimer now (elapsedTime p)
               (p\<lparr>mediaRecorderRef := r, recordingState := Recording\<rparr>))
      else
        p\<lparr>audioBlob := None, audioChunksRef := [], awaiting := awaiting p @ [elapsedTime p]\<rparr>)"

text \<open>
  \<open>handleRecord\<close> from the microphone's answer on, for the \<open>i\<close>-th of the calls that
  wait (there is none beyond the last): the rest of \<open>setupMediaRecorder\<close>, and on
  success the recorder is started, the state set and the timer started, with the clock
  read now and the \<open>elapsedTime\<close> the call closed over.
\<close>

definition handleRecord_continues ::
  "nat \<Rightarrow> bool \<Rightarrow> int \<Rightarrow> RecordingPane \<Rightarrow> RecordingPane" where
  "handleRecord_continues i granted now p =
     (if i < length (awaiting p) then
        (case setupMediaRecorder granted
                (p\<lparr>awaiting := take i (awaiting p) @ drop (Suc i) (awaiting p)\<rparr>) of
           (setupSuccess, p') \<Rightarrow>
             if setupSuccess then
               (case recorder_start (mediaRecorderRef p') of
                  Inl err \<Rightarrow> p'
                | Inr r \<Rightarrow>
                    startTimer now (awaiting p ! i)
                      (p'\<lparr>mediaRecorderRef := r, recordingState := Recording,
                          elapsedTime := 0\<rparr>))
             else p')
      else p)"

definition handlePause :: "RecordingPane \<Rightarrow> RecordingPane" where
  "handlePause p =
     (case recorder_pause (mediaRecorderRef p) of
        Inl err \<Rightarrow> p
      | Inr r \<Rightarrow> (clearTimer (p\<lparr>mediaRecorderRef := r\<rparr>))\<lparr>recordingState := Paused\<rparr>)"

definition handleStop :: "RecordingPane \<Rightarrow> RecordingPane" where
  "handleStop p = clearTimer ((recorder_stop p)\<lparr>recordingState := Stopped\<rparr>)"

definition handleCancel :: "RecordingPane \<Rightarrow> RecordingPane" where
  "handleCancel p =
     (cleanup p)\<lparr>recordingState := Idle, elapsedTime := 0, audioBlob := None,
                 audioChunksRef := []\<rparr>"

text \<open>
  \<open>handleSend\<close> hands the artifact to \<open>onSend\<close>: the result is the artifact sent, if any,
  and the pane's next state.
\<close>

definition handleSend :: "RecordingPane \<Rightarrow> Blob option \<times> RecordingPane" where
  "handleSend p =
     (case audioBlob p of
        None \<Rightarrow> (None, p)
      | Some b \<Rightarrow> (Some b, p\<lparr>recordingState := Idle, audioBlob := None, elapsedTime := 0\<rparr>))"

text \<open>The recorder's two callbacks; \<open>new_Blob\<close> is \<open>new Blob(parts, {type})\<close>.\<close>

definition new_Blob :: "Blob list \<Rightarrow> string \<Rightarrow> Blob" where
  "new_Blob parts t = \<lparr>bytes = concat (map bytes parts), type = t\<rparr>"

definition ondataavailable :: "Blob \<Rightarrow> RecordingPane \<Rightarrow> RecordingPane" where
  "ondataavailable data p = p\<lparr>audioChunksRef := audioChunksRef p @ [data]\<rparr>"

definition onstop_blob :: "RecordingPane \<Rightarrow> Blob" where
  "onstop_blob p = new_Blob (audioChunksRef p) ''audio/webm''"

definition onstop :: "RecordingPane \<Rightarrow> RecordingPane" where
  "onstop p = cleanup (p\<lparr>audioBlob := Some (onstop_blob p), audioChunksRef := []\<rparr>)"

text \<open>
  The recorder fires the next of its events, if that is the one in question: the
  callback runs, for \<open>dataavailable\<close> with the data the recorder has gathered.
\<close>

definition fires_dataavailable :: "Blob \<Rightarrow> RecordingPane \<Rightarrow> RecordingPane" where
  "fires_dataavailable data p =
     (case recorderEvents p of
        Fire_dataavailable # q \<Rightarrow> ondataavailable data (p\<lparr>recorderEvents := q\<rparr>)
      | _ \<Rightarrow> p)"

definition fires_stop :: "RecordingPane \<Rightarrow> RecordingPane" where
  "fires_stop p =
     (case recorderEvents p of
        Fire_stop # q \<Rightarrow> onstop (p\<lparr>recorderEvents := q\<rparr>)
      | _ \<Rightarrow> p)"

definition canRecord :: "RecordingPane \<Rightarrow> bool" where
  "canRecord p \<longleftrightarrow> recordingState p = Idle \<or> recordingState p = Paused"

definition canPause :: "RecordingPane \<Rightarrow> bool" where
  "canPause p \<longleftrightarrow> recordingState p = Recording"

definition canStop :: "RecordingPane \<Rightarrow> bool" where
  "canStop p \<longleftrightarrow> recordingState p = Recording \<or> recordingState p = Paused"

definition canCancel :: "RecordingPane \<Rightarrow> bool" where
  "canCancel p \<longleftrightarrow> recordingState p \<noteq> Idle \<and> recordingState p \<noteq> Stopped"

definition canSend :: "RecordingPane \<Rightarrow> bool" where
  "canSend p \<longleftrightarrow> recordingState p = Stopped"

section \<open>The page: both components and what reaches them\<close>

record Page =
  pane :: RecordingPane
  app :: App

definition Page_init :: Page where
  "Page_init = \<lparr>pane = RecordingPane_init, app = App_init\<rparr>"

text \<open>
  What can happen on the page: a click on one of the four buttons of the pane (the first
  button is Record or Pause), the microphone's answer to a \<open>handleRecord\<close> that waits, a
  submit of the reformat form, a click on Clear All, an interval firing, the recorder
  firing one of its two events, and the response to a call in flight. A click on a
  disabled button and a submit through a disabled button reach no handler; the
  reformat form is there only while \<open>transcription\<close> is truthy, the Clear All button only
  while one of the two results is. The clicks that may start a timer, the microphone's
  answer and the interval carry the reading of the clock.
\<close>

datatype event =
    ClickRecordPause int
  | MicrophoneAnswers nat bool int
  | ClickStop
  | ClickCancel
  | ClickSend
  | SubmitReformat ReformatOptions
  | ClickClear
  | IntervalFires nat int
  | DataAvailable Blob
  | RecorderStopped
  | ResponseArrives nat response

definition isBusy :: "Page \<Rightarrow> bool" where
  "isBusy s = transcription (isLoading (app s))"

fun step :: "GoogleGenAI \<Rightarrow> event \<Rightarrow> Page \<Rightarrow> Page" where
  "step ai (ClickRecordPause now) s =
     (if isBusy s \<or> (\<not> canRecord (pane s) \<and> \<not> canPause (pane s)) then s
      else if canRecord (pane s) then s\<lparr>pane := handleRecord now (pane s)\<rparr>
      else s\<lparr>pane := handlePause (pane s)\<rparr>)"
| "step ai (MicrophoneAnswers i granted now) s =
     s\<lparr>pane := handleRecord_continues i granted now (pane s)\<rparr>"
| "step ai ClickStop s =
     (if isBusy s \<or> \<not> canStop (pane s) then s else s\<lparr>pane := handleStop (pane s)\<rparr>)"
| "step ai ClickCancel s =
     (if isBusy s \<or> \<not> canCancel (pane s) then s else s\<lparr>pane := handleCancel (pane s)\<rparr>)"
| "step ai ClickSend s =
     (if isBusy s \<or> \<not> canSend (pane s) then s
      else (case handleSend (pane s) of
              (None, p) \<Rightarrow> s\<lparr>pane := p\<rparr>
            | (Some b, p) \<Rightarrow> \<lparr>pane = p, app = handleSendAudio ai b (app s)\<rparr>))"
| "step ai (SubmitReformat options) s =
     (if \<not> truthy (transcriptionResult (app s)) \<or> reformatting (isLoading (app s)) then s
      else s\<lparr>app := handleReformat ai options (app s)\<rparr>)"
| "step ai ClickClear s =
     (if truthy (transcriptionResult (app s)) \<or> truthy (reformattedResult (app s))
      then s\<lparr>app := handleClear (app s)\<rparr> else s)"
| "step ai (IntervalFires i now) s = s\<lparr>pane := tick i now (pane s)\<rparr>"
| "step ai (DataAvailable data) s = s\<lparr>pane := fires_dataavailable data (pane s)\<rparr>"
| "step ai RecorderStopped s = s\<lparr>pane := fires_stop (pane s)\<rparr>"
| "step ai (ResponseArrives i r) s = s\<lparr>app := respond i r (app s)\<rparr>"

fun run :: "GoogleGenAI \<Rightarrow> event list \<Rightarrow> Page \<Rightarrow> Page" where
  "run ai [] s = s"
| "run ai (e # es) s = run ai es (step ai e s)"

section \<open>Concrete inputs\<close>

text \<open>
  JSON texts are written with \<open>quoted\<close>, which puts a text between double quotes. The
  two bodies are \<open>{"title":"T"}\<close> and \<open>{"title":"T","content":"C"}\<close>.
\<close>

definition quoted :: "string \<Rightarrow> jsstring" where
  "quoted s = 0x22 # js s @ [0x22]"

definition body_without_content :: jsstring where
  "body_without_content = js ''{'' @ quoted ''title'' @ js '':'' @ quoted ''T'' @ js ''}''"

definition body_complete :: jsstring where
  "body_complete =
     js ''{'' @ quoted ''title'' @ js '':'' @ quoted ''T'' @ js '','' @
     quoted ''content'' @ js '':'' @ quoted ''C'' @ js ''}''"

definition a_client :: GoogleGenAI where
  "a_client = \<lparr>apiKey = ''key''\<rparr>"

definition a_blob :: Blob where
  "a_blob = \<lparr>bytes = [1, 2, 3], type = ''audio/webm''\<rparr>"

definition some_options :: ReformatOptions where
  "some_options = \<lparr>format = Email, style = Business_Appropriate\<rparr>"

text \<open>The state after a first recording has been sent and transcribed.\<close>

definition transcribed_once :: App where
  "transcribed_once =
     respond 0 (Text (Some body_complete)) (handleSendAudio a_client a_blob App_init)"

section \<open>The transition table\<close>




text \<open>The media type a request in flight carries, if it carries audio.\<close>

fun media_type_sent :: "request \<Rightarrow> string option" where
  "media_type_sent (Transcribe c) =
     (case contents c of AudioPart d m \<Rightarrow> Some m | ReformatPrompt t f y \<Rightarrow> None)"
| "media_type_sent (Reformat c l) = None"

definition declares_webm :: "Page \<Rightarrow> bool" where
  "declares_webm s \<longleftrightarrow>
     (case audioBlob (pane s) of None \<Rightarrow> True | Some b \<Rightarrow> type b = ''audio/webm'') \<and>
     list_all (\<lambda>q. is_transcribe q \<longrightarrow> media_type_sent q = Some ''audio/webm'')
       (inflight (app s))"

definition a_chunk :: Blob where
  "a_chunk = \<lparr>bytes = [7, 8], type = ''audio/mp4''\<rparr>"

text \<open>
  A run is unhurried when no click on the Record/Pause button comes while a
  \<open>handleRecord\<close> still waits for the microphone. In such a run at most one call waits,
  and the session is \<open>Idle\<close> while it does.
\<close>

fun unhurried :: "GoogleGenAI \<Rightarrow> event list \<Rightarrow> Page \<Rightarrow> bool" where
  "unhurried ai [] s = True"
| "unhurried ai (e # es) s =
     ((case e of ClickRecordPause now \<Rightarrow> awaiting (pane s) = [] | _ \<Rightarrow> True) \<and>
      unhurried ai es (step ai e s))"



text \<open>
  Runs of the page. \<open>record_and_send\<close>: a recording is made, stopped and sent. In
  \<open>overlapping_sends\<close> its transcription arrives, a reformat is asked for, a second
  recording is sent, the reformat's response arrives, and a third recording is sent.
  In \<open>cleared_then_answered\<close> the transcription arrives, a reformat is asked for, Clear
  All is clicked, and then the reformat's response arrives. In
  \<open>answered_in_reverse\<close> the transcription arrives, a reformat is asked for, Clear All
  is clicked, a second recording is sent and transcribed, a second reformat is asked
  for, and the second reformat is answered before the first.
\<close>

definition record_and_send :: "event list" where
  "record_and_send =
     [ClickRecordPause 0, MicrophoneAnswers 0 True 0, ClickStop, DataAvailable a_chunk,
      RecorderStopped, ClickSend]"


definition cleared_then_answered :: "event list" where
  "cleared_then_answered =
     record_and_send @
     [ResponseArrives 0 (Text (Some body_complete)), SubmitReformat some_options, ClickClear,
      ResponseArrives 0 (Text (Some body_without_content))]"


section \<open>The clock\<close>














section \<open>Facts about the client and the orchestrator\<close>

lemma parse_body_without_content:
  "JSON_parse (trim body_without_content) = Some (JObj [(js ''title'', JStr (js ''T''))])"
  by code_simp

lemma parse_body_complete:
  "JSON_parse (trim body_complete) =
     Some (JObj [(js ''title'', JStr (js ''T'')), (js ''content'', JStr (js ''C''))])"
  by code_simp


lemma truthy_get_content: "truthy v \<Longrightarrow> \<exists>t. get_content v = Inr t"
  by (cases v) auto

lemma respond_last_Transcribe:
  "respond (length qs) r (st\<lparr>inflight := qs @ [Transcribe c]\<rparr>) =
     handleSendAudio_settle r (st\<lparr>inflight := qs\<rparr>)"
  by (simp add: respond_def)

lemma respond_last_Reformat:
  "respond (length qs) r (st\<lparr>inflight := qs @ [Reformat c l]\<rparr>) =
     handleReformat_settle l r (st\<lparr>inflight := qs\<rparr>)"
  by (simp add: respond_def)

lemma transcribed_once_eq:
  "transcribed_once =
     \<lparr>isLoading = \<lparr>transcription = False, reformatting = False\<rparr>, error = None,
      transcriptionResult =
        JObj [(js ''title'', JStr (js ''T'')), (js ''content'', JStr (js ''C''))],
      reformattedResult = JNull, inflight = []\<rparr>"
  by (simp add: transcribed_once_def handleSendAudio_def App_init_def respond_def
      handleSendAudio_settle_def transcribeAudio_return_def parse_body_complete)


section \<open>The claims\<close>

text \<open>
  C7. In every state of the orchestrator whose \<open>transcriptionResult\<close> is null,
  \<open>onReformat\<close> with any options changes nothing: the state, and with it the list of
  calls in flight, is as before, so no remote call is issued.
\<close>

theorem reformat_without_transcription_is_noop:
  "transcriptionResult st = JNull \<Longrightarrow>
     handleReformat ai options st = st \<and>
     inflight (handleReformat ai options st) = inflight st"
  by (simp add: handleReformat_def)

theorem reformat_without_transcription_is_noop_witness:
  "transcriptionResult App_init = JNull \<and>
   handleReformat a_client some_options App_init = App_init \<and>
   inflight (handleReformat a_client some_options App_init) = inflight App_init"
  using reformat_without_transcription_is_noop [of App_init a_client some_options]
  by (simp add: App_init_def)

text \<open>
  C9. Without \<open>API_KEY\<close> in the environment, loading the client module throws; and
  whenever loading yields the client whose operations can then be called, the
  environment held a non-empty key, which is the client's.
\<close>

theorem module_needs_api_key:
  "(env ''API_KEY'' = None \<longrightarrow>
      load_geminiService env = Inl (Error ''API_KEY environment variable not set'')) \<and>
   (\<forall>ai. load_geminiService env = Inr ai \<longrightarrow>
      env ''API_KEY'' = Some (apiKey ai) \<and> apiKey ai \<noteq> [])"
  by (auto simp: load_geminiService_def split: option.splits if_splits)

theorem module_needs_api_key_witness:
  "Map.empty ''API_KEY'' = (None :: string option) \<and>
   load_geminiService Map.empty = Inl (Error ''API_KEY environment variable not set'') \<and>
   load_geminiService [''API_KEY'' \<mapsto> ''key''] = Inr a_client \<and>
   [''API_KEY'' \<mapsto> ''key''] ''API_KEY'' = Some (apiKey a_client) \<and> apiKey a_client \<noteq> []"
  using module_needs_api_key [of Map.empty] module_needs_api_key [of "[''API_KEY'' \<mapsto> ''key'']"]
  by (simp add: load_geminiService_def a_client_def)

text \<open>
  C4, as the claim has it: after a failed transcription \<open>transcriptionResult\<close> is what it
  was before the \<open>onSend\<close>. It is not: a second recording sent after a first successful
  one, whose request fails, leaves \<open>transcriptionResult\<close> null.
\<close>

theorem failed_send_keeps_result_counterexample:
  "transcriptionResult (respond 0 Failed (handleSendAudio a_client a_blob transcribed_once))
     \<noteq> transcriptionResult transcribed_once"
  by (simp add: transcribed_once_eq handleSendAudio_def respond_def handleSendAudio_settle_def
      transcribeAudio_return_def)

text \<open>
  C4, amended. When the transcription request of an \<open>onSend\<close> fails, no partial result
  is stored: the failure changes neither \<open>transcriptionResult\<close> nor the reformat result,
  it sets the error message and clears both flags. \<open>onSend\<close> itself has cleared both
  results before the request went out. So when the failure is the next response to
  arrive, both results are null whatever they held before the \<open>onSend\<close>; a result that
  another response stored in between stays.
\<close>

theorem failed_send_leaves_null:
  "transcriptionResult (handleSendAudio ai b st) = JNull \<and>
   reformattedResult (handleSendAudio ai b st) = JNull \<and>
   (i < length (inflight st') \<and> inflight st' ! i = Transcribe c \<and>
    transcribeAudio_return r = Inl err \<longrightarrow>
      transcriptionResult (respond i r st') = transcriptionResult st' \<and>
      reformattedResult (respond i r st') = reformattedResult st' \<and>
      error (respond i r st') = Some ''Failed to transcribe audio. Please try again.'' \<and>
      isLoading (respond i r st') = \<lparr>transcription = False, reformatting = False\<rparr>) \<and>
   (transcribeAudio_return r = Inl err \<longrightarrow>
      transcriptionResult (respond (length (inflight st)) r (handleSendAudio ai b st)) = JNull \<and>
      reformattedResult (respond (length (inflight st)) r (handleSendAudio ai b st)) = JNull \<and>
      error (respond (length (inflight st)) r (handleSendAudio ai b st)) =
        Some ''Failed to transcribe audio. Please try again.'' \<and>
      \<not> transcription (isLoading (respond (length (inflight st)) r (handleSendAudio ai b st))))"
  by (simp add: handleSendAudio_def respond_def handleSendAudio_settle_def)

text \<open>
  The witness: a reformat is in flight when a second recording is sent; the reformat's
  answer is stored; then the transcription fails, and the stored answer stays.
\<close>

theorem failed_send_leaves_null_witness:
  "transcribeAudio_return Failed = Inl Rejection \<and>
   inflight (respond 0 (Text (Some body_complete))
      (handleSendAudio a_client a_blob
         (handleReformat a_client some_options transcribed_once))) =
     [Transcribe (transcribeAudio_call a_client (blobToBase64 a_blob) (type a_blob))] \<and>
   transcriptionResult (respond 0 Failed (respond 0 (Text (Some body_complete))
      (handleSendAudio a_client a_blob
         (handleReformat a_client some_options transcribed_once)))) = JNull \<and>
   reformattedResult (respond 0 Failed (respond 0 (Text (Some body_complete))
      (handleSendAudio a_client a_blob
         (handleReformat a_client some_options transcribed_once)))) =
     JObj [(js ''title'', JStr (js ''T'')), (js ''content'', JStr (js ''C''))] \<and>
   transcriptionResult (respond 0 Failed (handleSendAudio a_client a_blob transcribed_once)) =
     JNull \<and>
   error (respond 0 Failed (handleSendAudio a_client a_blob transcribed_once)) =
     Some ''Failed to transcribe audio. Please try again.''"
proof -
  define st' where "st' = respond 0 (Text (Some body_complete))
      (handleSendAudio a_client a_blob
         (handleReformat a_client some_options transcribed_once))"
  have st': "st' =
     \<lparr>isLoading = \<lparr>transcription = False, reformatting = False\<rparr>, error = None,
      transcriptionResult = JNull,
      reformattedResult =
        JObj [(js ''title'', JStr (js ''T'')), (js ''content'', JStr (js ''C''))],
      inflight = [Transcribe (transcribeAudio_call a_client (blobToBase64 a_blob) (type a_blob))]\<rparr>"
    by (simp add: st'_def transcribed_once_eq handleSendAudio_def handleReformat_def
        respond_def handleReformat_settle_def reformatText_return_def parse_body_complete)
  have f: "transcribeAudio_return Failed = Inl Rejection"
    by (simp add: transcribeAudio_return_def)
  from failed_send_leaves_null [of a_client a_blob transcribed_once 0 st'
      "transcribeAudio_call a_client (blobToBase64 a_blob) (type a_blob)" Failed Rejection] f
  show ?thesis
    unfolding st'_def [symmetric] by (simp add: st' transcribed_once_eq)
qed

text \<open>
  C2, as the claim has it: a response that arrives after the session was cleared, or
  after a new recording was sent, is never stored. The orchestrator stores both: the
  transcription of a recording whose session was cleared meanwhile, and the reformat
  result of a transcription that a new \<open>onSend\<close> has replaced. The same happens on the
  page: after Clear All the answer to the reformat still in flight is stored.
\<close>

theorem stale_response_ignored_counterexample:
  "transcriptionResult
     (respond 0 (Text (Some body_complete))
        (handleClear (handleSendAudio a_client a_blob App_init))) \<noteq> JNull \<and>
   reformattedResult
     (respond 0 (Text (Some body_without_content))
        (handleSendAudio a_client a_blob
           (handleReformat a_client some_options transcribed_once))) \<noteq> JNull \<and>
   reformattedResult (app (run a_client cleared_then_answered Page_init)) =
     JObj [(js ''title'', JStr (js ''T''))]"
proof -
  have "reformattedResult (app (run a_client cleared_then_answered Page_init)) =
      JObj [(js ''title'', JStr (js ''T''))]"
    by code_simp
  then show ?thesis
    by (simp add: transcribed_once_eq handleSendAudio_def handleClear_def handleReformat_def
        respond_def handleSendAudio_settle_def handleReformat_settle_def App_init_def
        transcribeAudio_return_def reformatText_return_def parse_body_complete
        parse_body_without_content)
qed

text \<open>
  C2, amended. The orchestrator has no stale-response guard: a response that arrives
  after an \<open>onClear\<close> or after a new \<open>onSend\<close> is handled like any other. If it
  parses it is stored, a transcription into \<open>transcriptionResult\<close> and a reformat into
  the reformat result.
\<close>

theorem stale_response_is_stored:
  "(transcribeAudio_return r = Inr v \<longrightarrow>
      transcriptionResult
        (respond (length (inflight st)) r (handleClear (handleSendAudio ai b st))) = v \<and>
      transcriptionResult
        (respond (length (inflight st)) r (handleSendAudio ai b' (handleSendAudio ai b st))) = v) \<and>
   (reformatText_return r = Inr v \<and> truthy (transcriptionResult st) \<longrightarrow>
      reformattedResult
        (respond (length (inflight st)) r (handleClear (handleReformat ai options st))) = v \<and>
      reformattedResult
        (respond (length (inflight st)) r (handleSendAudio ai b (handleReformat ai options st))) = v)"
proof (intro conjI impI)
  assume "transcribeAudio_return r = Inr v"
  then show
    "transcriptionResult
       (respond (length (inflight st)) r (handleClear (handleSendAudio ai b st))) = v"
    "transcriptionResult
       (respond (length (inflight st)) r (handleSendAudio ai b' (handleSendAudio ai b st))) = v"
    by (simp_all add: handleSendAudio_def handleClear_def respond_def handleSendAudio_settle_def
        nth_append)
next
  assume a: "reformatText_return r = Inr v \<and> truthy (transcriptionResult st)"
  then obtain t where t: "get_content (transcriptionResult st) = Inr t"
    using truthy_get_content by blast
  from a t show
    "reformattedResult
       (respond (length (inflight st)) r (handleClear (handleReformat ai options st))) = v"
    "reformattedResult
       (respond (length (inflight st)) r (handleSendAudio ai b (handleReformat ai options st))) = v"
    by (simp_all add: handleSendAudio_def handleClear_def handleReformat_def respond_def
        handleReformat_settle_def nth_append Let_def)
qed

theorem stale_response_is_stored_witness:
  "transcribeAudio_return (Text (Some body_complete)) =
     Inr (JObj [(js ''title'', JStr (js ''T'')), (js ''content'', JStr (js ''C''))]) \<and>
   reformatText_return (Text (Some body_complete)) =
     Inr (JObj [(js ''title'', JStr (js ''T'')), (js ''content'', JStr (js ''C''))]) \<and>
   truthy (transcriptionResult transcribed_once) \<and>
   transcriptionResult
     (respond 0 (Text (Some body_complete))
        (handleClear (handleSendAudio a_client a_blob transcribed_once))) =
     JObj [(js ''title'', JStr (js ''T'')), (js ''content'', JStr (js ''C''))] \<and>
   reformattedResult
     (respond 0 (Text (Some body_complete))
        (handleClear (handleReformat a_client some_options transcribed_once))) =
     JObj [(js ''title'', JStr (js ''T'')), (js ''content'', JStr (js ''C''))]"
  using stale_response_is_stored [of "Text (Some body_complete)"
      "JObj [(js ''title'', JStr (js ''T'')), (js ''content'', JStr (js ''C''))]"
      transcribed_once a_client a_blob a_blob some_options]
  by (simp add: transcribeAudio_return_def reformatText_return_def parse_body_complete
      transcribed_once_eq)











section \<open>Facts about the pane and the page\<close>

lemma handleRecord_cases:
  "handleRecord now p = p \<or>
   (recordingState p = Paused \<and>
    (\<exists>r. handleRecord now p =
       p\<lparr>mediaRecorderRef := r, recordingState := Recording,
         timerIntervalRef := Some (Suc (intervalsSet p)),
         intervals := intervals p @ [(Suc (intervalsSet p), now - elapsedTime p * 1000)],
         intervalsSet := Suc (intervalsSet p)\<rparr>)) \<or>
   (recordingState p \<noteq> Paused \<and>
    handleRecord now p =
      p\<lparr>audioBlob := None, audioChunksRef := [], awaiting := awaiting p @ [elapsedTime p]\<rparr>)"
  by (auto simp: handleRecord_def startTimer_def Let_def split: sum.splits)

lemma handleRecord_continues_cases:
  "handleRecord_continues i granted now p = p \<or>
   (i < length (awaiting p) \<and>
    handleRecord_continues i granted now p =
      p\<lparr>awaiting := take i (awaiting p) @ drop (Suc i) (awaiting p)\<rparr>) \<or>
   (i < length (awaiting p) \<and>
    handleRecord_continues i granted now p =
      p\<lparr>awaiting := take i (awaiting p) @ drop (Suc i) (awaiting p),
        mediaRecorderRef := Some recording, recordingState := Recording, elapsedTime := 0,
        timerIntervalRef := Some (Suc (intervalsSet p)),
        intervals := intervals p @ [(Suc (intervalsSet p), now - awaiting p ! i * 1000)],
        intervalsSet := Suc (intervalsSet p)\<rparr>)"
  by (auto simp: handleRecord_continues_def setupMediaRecorder_def recorder_start_def
      startTimer_def Let_def)

lemma handlePause_cases:
  "handlePause p = p \<or>
   (\<exists>r. handlePause p = (clearTimer (p\<lparr>mediaRecorderRef := r\<rparr>))\<lparr>recordingState := Paused\<rparr>)"
  by (auto simp: handlePause_def split: sum.splits)

lemma clearTimer_fields:
  "recordingState (clearTimer p) = recordingState p"
  "elapsedTime (clearTimer p) = elapsedTime p"
  "timerIntervalRef (clearTimer p) = timerIntervalRef p"
  "audioBlob (clearTimer p) = audioBlob p"
  "awaiting (clearTimer p) = awaiting p"
  "recorderEvents (clearTimer p) = recorderEvents p"
  "audioChunksRef (clearTimer p) = audioChunksRef p"
  by (simp_all add: clearTimer_def clearInterval_def split: option.splits)

lemma recorder_stop_fields:
  "recordingState (recorder_stop p) = recordingState p"
  "elapsedTime (recorder_stop p) = elapsedTime p"
  "timerIntervalRef (recorder_stop p) = timerIntervalRef p"
  "intervals (recorder_stop p) = intervals p"
  "audioBlob (recorder_stop p) = audioBlob p"
  "awaiting (recorder_stop p) = awaiting p"
  "audioChunksRef (recorder_stop p) = audioChunksRef p"
  by (simp_all add: recorder_stop_def split: option.splits)

lemma handlePause_fields:
  "recordingState (handlePause p) = recordingState p \<or> recordingState (handlePause p) = Paused"
  "awaiting (handlePause p) = awaiting p"
  "audioBlob (handlePause p) = audioBlob p"
  "elapsedTime (handlePause p) = elapsedTime p"
  using handlePause_cases [of p] by (auto simp: clearTimer_fields)

lemma handleStop_fields:
  "recordingState (handleStop p) = Stopped"
  "awaiting (handleStop p) = awaiting p"
  "audioBlob (handleStop p) = audioBlob p"
  "elapsedTime (handleStop p) = elapsedTime p"
  by (simp_all add: handleStop_def clearTimer_fields recorder_stop_fields)

lemma handleCancel_fields:
  "recordingState (handleCancel p) = Idle"
  "awaiting (handleCancel p) = awaiting p"
  "audioBlob (handleCancel p) = None"
  by (simp_all add: handleCancel_def cleanup_def clearTimer_fields)

lemma handleSend_cases:
  "(audioBlob p = None \<and> handleSend p = (None, p)) \<or>
   (\<exists>b. audioBlob p = Some b \<and>
      handleSend p =
        (Some b, p\<lparr>recordingState := Idle, audioBlob := None, elapsedTime := 0\<rparr>))"
  by (cases "audioBlob p") (simp_all add: handleSend_def)


lemma tick_fields:
  "recordingState (tick i now p) = recordingState p"
  "awaiting (tick i now p) = awaiting p"
  "audioBlob (tick i now p) = audioBlob p"
  by (simp_all add: tick_def split: option.splits)

lemma onstop_fields:
  "recordingState (onstop p) = recordingState p"
  "awaiting (onstop p) = awaiting p"
  "audioBlob (onstop p) = Some (onstop_blob p)"
  "elapsedTime (onstop p) = elapsedTime p"
  by (simp_all add: onstop_def cleanup_def clearTimer_fields)

lemma fires_stop_cases:
  "fires_stop p = p \<or>
   (\<exists>q. recorderEvents p = Fire_stop # q \<and> fires_stop p = onstop (p\<lparr>recorderEvents := q\<rparr>))"
  by (auto simp: fires_stop_def split: list.splits recorder_event.splits)

lemma fires_dataavailable_cases:
  "fires_dataavailable data p = p \<or>
   (\<exists>q. recorderEvents p = Fire_dataavailable # q \<and>
      fires_dataavailable data p =
        p\<lparr>recorderEvents := q, audioChunksRef := audioChunksRef p @ [data]\<rparr>)"
  by (auto simp: fires_dataavailable_def ondataavailable_def
      split: list.splits recorder_event.splits)

lemma fires_fields:
  "recordingState (fires_stop p) = recordingState p"
  "awaiting (fires_stop p) = awaiting p"
  "elapsedTime (fires_stop p) = elapsedTime p"
  "recordingState (fires_dataavailable data p) = recordingState p"
  "awaiting (fires_dataavailable data p) = awaiting p"
  "elapsedTime (fires_dataavailable data p) = elapsedTime p"
  "audioBlob (fires_dataavailable data p) = audioBlob p"
  using fires_stop_cases [of p] fires_dataavailable_cases [of data p]
  by (auto simp: onstop_fields)



lemma unhurried_append:
  "unhurried ai (es @ fs) s \<longleftrightarrow> unhurried ai es s \<and> unhurried ai fs (run ai es s)"
  by (induction es arbitrary: s) auto







lemma audioBlob_handleRecord:
  "audioBlob (handleRecord now p) = None \<or> audioBlob (handleRecord now p) = audioBlob p"
  using handleRecord_cases [of now p] by auto

lemma audioBlob_handleRecord_continues:
  "audioBlob (handleRecord_continues i granted now p) = audioBlob p"
  using handleRecord_continues_cases [of i granted now p] by auto

lemma type_onstop_blob: "type (onstop_blob p) = ''audio/webm''"
  by (simp add: onstop_blob_def new_Blob_def)

lemma audioBlob_fires_stop:
  "audioBlob (fires_stop p) = audioBlob p \<or>
   (\<exists>p'. audioBlob (fires_stop p) = Some (onstop_blob p'))"
  using fires_stop_cases [of p] by (auto simp: onstop_fields)

lemma inflight_handleSendAudio:
  "inflight (handleSendAudio ai b st) =
     inflight st @ [Transcribe (transcribeAudio_call ai (blobToBase64 b) (type b))]"
  by (simp add: handleSendAudio_def)

lemma inflight_handleReformat:
  "inflight (handleReformat ai options st) = inflight st \<or>
   (\<exists>c l. inflight (handleReformat ai options st) = inflight st @ [Reformat c l])"
  by (auto simp: handleReformat_def Let_def split: sum.splits)

lemma inflight_handleClear: "inflight (handleClear st) = inflight st"
  by (simp add: handleClear_def)

lemma inflight_respond:
  "inflight (respond i r st) = inflight st \<or>
   inflight (respond i r st) = take i (inflight st) @ drop (Suc i) (inflight st)"
  by (auto simp: respond_def handleSendAudio_settle_def handleReformat_settle_def Let_def
      split: request.splits sum.splits)

lemma list_all_respond:
  assumes "list_all P (inflight st)"
  shows "list_all P (inflight (respond i r st))"
proof -
  have "set (take i (inflight st) @ drop (Suc i) (inflight st)) \<subseteq> set (inflight st)"
    by (auto dest: in_set_takeD in_set_dropD)
  with inflight_respond [of i r st] have "set (inflight (respond i r st)) \<subseteq> set (inflight st)"
    by auto
  with assms show ?thesis
    unfolding list_all_iff by blast
qed

lemma declares_webm_step: "declares_webm s \<Longrightarrow> declares_webm (step ai e s)"
proof (cases e)
  case (ClickRecordPause now)
  assume "declares_webm s"
  with ClickRecordPause audioBlob_handleRecord [of now "pane s"] show ?thesis
    by (auto simp: declares_webm_def handlePause_fields)
next
  case (MicrophoneAnswers i granted now)
  assume "declares_webm s"
  with MicrophoneAnswers show ?thesis
    by (simp add: declares_webm_def audioBlob_handleRecord_continues)
next
  case ClickStop
  assume "declares_webm s"
  with ClickStop show ?thesis
    by (simp add: declares_webm_def handleStop_fields)
next
  case ClickCancel
  assume "declares_webm s"
  with ClickCancel show ?thesis
    by (simp add: declares_webm_def handleCancel_fields)
next
  case ClickSend
  assume d: "declares_webm s"
  show ?thesis
  proof (cases "isBusy s \<or> \<not> canSend (pane s)")
    case True
    with d ClickSend show ?thesis by auto
  next
    case False
    from handleSend_cases [of "pane s"] show ?thesis
    proof
      assume "audioBlob (pane s) = None \<and> handleSend (pane s) = (None, pane s)"
      with d ClickSend False show ?thesis by (simp add: declares_webm_def)
    next
      assume "\<exists>b. audioBlob (pane s) = Some b \<and>
        handleSend (pane s) =
          (Some b, (pane s)\<lparr>recordingState := Idle, audioBlob := None, elapsedTime := 0\<rparr>)"
      then obtain b p' where b: "audioBlob (pane s) = Some b" "handleSend (pane s) = (Some b, p')"
        "audioBlob p' = None"
        by auto
      with ClickSend False have
        "step ai e s = \<lparr>pane = p', app = handleSendAudio ai b (app s)\<rparr>"
        by simp
      with d b show ?thesis
        by (simp add: declares_webm_def inflight_handleSendAudio transcribeAudio_call_def)
    qed
  qed
next
  case (SubmitReformat options)
  assume "declares_webm s"
  with SubmitReformat inflight_handleReformat [of ai options "app s"] show ?thesis
    by (auto simp: declares_webm_def)
next
  case ClickClear
  assume "declares_webm s"
  with ClickClear show ?thesis
    by (simp add: declares_webm_def inflight_handleClear)
next
  case (IntervalFires i now)
  assume "declares_webm s"
  with IntervalFires show ?thesis
    by (simp add: declares_webm_def tick_fields)
next
  case (DataAvailable data)
  assume "declares_webm s"
  with DataAvailable show ?thesis
    by (simp add: declares_webm_def fires_fields)
next
  case RecorderStopped
  assume "declares_webm s"
  with RecorderStopped audioBlob_fires_stop [of "pane s"] show ?thesis
    by (auto simp: declares_webm_def type_onstop_blob)
next
  case (ResponseArrives i r)
  assume "declares_webm s"
  with ResponseArrives show ?thesis
    by (simp add: declares_webm_def list_all_respond)
qed

lemma declares_webm_run: "declares_webm s \<Longrightarrow> declares_webm (run ai es s)"
  by (induction es arbitrary: s) (simp_all add: declares_webm_step)

lemma declares_webm_init: "declares_webm Page_init"
  by (simp add: declares_webm_def Page_init_def RecordingPane_init_def App_init_def)

text \<open>
  C10. The artifact the recorder's stop event builds declares \<open>audio/webm\<close> whatever the
  type of the chunks it is built from, and \<open>onSend\<close> passes the artifact's declared
  type on. So on the page, after any sequence of events, the artifact waiting to be
  sent (if there is one) declares \<open>audio/webm\<close>, and so does every transcription request
  in flight.
\<close>

theorem artifacts_declare_webm:
  "type (onstop_blob p) = ''audio/webm'' \<and>
   audioBlob (onstop p) = Some (onstop_blob p) \<and>
   media_type_sent (last (inflight (handleSendAudio ai b st))) = Some (type b) \<and>
   (\<forall>b'. audioBlob (pane (run ai es Page_init)) = Some b' \<longrightarrow> type b' = ''audio/webm'') \<and>
   (\<forall>q \<in> set (inflight (app (run ai es Page_init))).
      is_transcribe q \<longrightarrow> media_type_sent q = Some ''audio/webm'')"
proof -
  have "declares_webm (run ai es Page_init)"
    by (rule declares_webm_run [OF declares_webm_init])
  then have
    "\<forall>b'. audioBlob (pane (run ai es Page_init)) = Some b' \<longrightarrow> type b' = ''audio/webm''"
    "\<forall>q \<in> set (inflight (app (run ai es Page_init))).
       is_transcribe q \<longrightarrow> media_type_sent q = Some ''audio/webm''"
    by (simp_all add: declares_webm_def list_all_iff split: option.splits)
  moreover have "media_type_sent (last (inflight (handleSendAudio ai b st))) = Some (type b)"
    by (simp add: inflight_handleSendAudio transcribeAudio_call_def)
  ultimately show ?thesis
    by (simp add: type_onstop_blob onstop_fields)
qed

theorem artifacts_declare_webm_witness:
  "audioBlob (pane (run a_client
      [ClickRecordPause 0, MicrophoneAnswers 0 True 0, ClickStop, DataAvailable a_chunk,
       RecorderStopped] Page_init)) =
     Some \<lparr>bytes = [7, 8], type = ''audio/webm''\<rparr> \<and>
   inflight (app (run a_client
      [ClickRecordPause 0, MicrophoneAnswers 0 True 0, ClickStop, DataAvailable a_chunk,
       RecorderStopped, ClickSend]
      Page_init)) =
     [Transcribe (transcribeAudio_call a_client (Base64 [7, 8]) ''audio/webm'')] \<and>
   is_transcribe (Transcribe (transcribeAudio_call a_client (Base64 [7, 8]) ''audio/webm'')) \<and>
   media_type_sent (Transcribe (transcribeAudio_call a_client (Base64 [7, 8]) ''audio/webm'')) =
     Some ''audio/webm''"
proof -
  have r1: "audioBlob (pane (run a_client
      [ClickRecordPause 0, MicrophoneAnswers 0 True 0, ClickStop, DataAvailable a_chunk,
       RecorderStopped] Page_init)) =
     Some \<lparr>bytes = [7, 8], type = ''audio/webm''\<rparr>"
    by code_simp
  have r2: "inflight (app (run a_client
      [ClickRecordPause 0, MicrophoneAnswers 0 True 0, ClickStop, DataAvailable a_chunk,
       RecorderStopped, ClickSend]
      Page_init)) =
     [Transcribe (transcribeAudio_call a_client (Base64 [7, 8]) ''audio/webm'')]"
    by code_simp
  from artifacts_declare_webm [of RecordingPane_init a_client a_blob App_init
      "[ClickRecordPause 0, MicrophoneAnswers 0 True 0, ClickStop, DataAvailable a_chunk,
        RecorderStopped]"]
    artifacts_declare_webm [of RecordingPane_init a_client a_blob App_init
      "[ClickRecordPause 0, MicrophoneAnswers 0 True 0, ClickStop, DataAvailable a_chunk,
        RecorderStopped, ClickSend]"]
    r1 r2
  show ?thesis
    by (simp add: transcribeAudio_call_def)
qed



































end
